theory Spec2Isabelle
  imports Main "HOL-Library.Sublist" "HOL-Library.AList"
begin

section \<open>Python strings\<close>

text \<open>
  A Python \<open>str\<close> is modelled as an Isabelle \<open>string\<close>. The character tests of the
  source (\<open>isspace\<close>, \<open>isdigit\<close>, \<open>isalpha\<close>, \<open>lower\<close>) are modelled on the ASCII
  range: a character outside ASCII is neither a space, a digit nor a letter here, and
  \<open>lower\<close> leaves it alone.
\<close>

definition code :: "char \<Rightarrow> nat" where
  "code c = of_char c"

text \<open>\<open>str.isspace\<close> on ASCII: TAB, LF, VT, FF, CR, the separators 0x1c-0x1f, and space.\<close>

definition isspace :: "char \<Rightarrow> bool" where
  "isspace c = ((9 \<le> code c \<and> code c \<le> 13) \<or> (28 \<le> code c \<and> code c \<le> 32))"

definition isdigit_char :: "char \<Rightarrow> bool" where
  "isdigit_char c = (48 \<le> code c \<and> code c \<le> 57)"

definition isupper_char :: "char \<Rightarrow> bool" where
  "isupper_char c = (65 \<le> code c \<and> code c \<le> 90)"

definition isalpha_char :: "char \<Rightarrow> bool" where
  "isalpha_char c = ((65 \<le> code c \<and> code c \<le> 90) \<or> (97 \<le> code c \<and> code c \<le> 122))"

definition isascii_char :: "char \<Rightarrow> bool" where
  "isascii_char c = (code c < 128)"

definition lower_char :: "char \<Rightarrow> char" where
  "lower_char c = (if isupper_char c then char_of (code c + 32) else c)"

text \<open>\<open>s.lower()\<close>\<close>

definition lower :: "string \<Rightarrow> string" where
  "lower s = map lower_char s"

text \<open>\<open>s.isdigit()\<close>: true when \<open>s\<close> is not empty and every character is a digit.\<close>

definition isdigit :: "string \<Rightarrow> bool" where
  "isdigit s = (s \<noteq> [] \<and> list_all isdigit_char s)"

text \<open>\<open>sub in s\<close>: \<open>sub\<close> occurs in \<open>s\<close> as a contiguous substring.\<close>

fun py_in :: "string \<Rightarrow> string \<Rightarrow> bool" where
  "py_in sub [] = (sub = [])"
| "py_in sub (c # cs) = (prefix sub (c # cs) \<or> py_in sub cs)"

text \<open>\<open>s.startswith(p)\<close>\<close>

definition startswith :: "string \<Rightarrow> string \<Rightarrow> bool" where
  "startswith s p = prefix p s"

text \<open>\<open>s.strip()\<close>: leading and trailing whitespace removed.\<close>

definition lstrip :: "string \<Rightarrow> string" where
  "lstrip s = dropWhile isspace s"

definition rstrip :: "string \<Rightarrow> string" where
  "rstrip s = rev (dropWhile isspace (rev s))"

definition strip :: "string \<Rightarrow> string" where
  "strip s = rstrip (lstrip s)"

text \<open>
  \<open>s.split()\<close>: the maximal runs of non-whitespace characters, in order. \<open>split_acc\<close> carries
  the word being read, reversed.
\<close>

fun split_acc :: "string \<Rightarrow> string \<Rightarrow> string list" where
  "split_acc w [] = (if w = [] then [] else [rev w])"
| "split_acc w (c # cs) =
     (if isspace c then (if w = [] then split_acc [] cs else rev w # split_acc [] cs)
      else split_acc (c # w) cs)"

definition split :: "string \<Rightarrow> string list" where
  "split s = split_acc [] s"

text \<open>\<open>s.replace(',', '')\<close>\<close>

definition remove_commas :: "string \<Rightarrow> string" where
  "remove_commas s = filter (\<lambda>c. c \<noteq> CHR '','') s"

text \<open>\<open>str(n)\<close> for a non-negative integer: its decimal digits.\<close>

definition digit_char :: "nat \<Rightarrow> char" where
  "digit_char d = char_of (48 + d)"

fun str_nat :: "nat \<Rightarrow> string" where
  "str_nat n = (if n < 10 then [digit_char n] else str_nat (n div 10) @ [digit_char (n mod 10)])"

declare str_nat.simps [simp del]

section \<open>Exceptions\<close>

text \<open>
  The exceptions the source distinguishes in its handlers: the three classes of
  \<open>requests.exceptions\<close> it names (\<open>Timeout\<close> and \<open>HTTPError\<close> are subclasses of
  \<open>RequestException\<close>; \<open>RequestException\<close> below stands for every other member of the
  class), \<open>ValueError\<close> (raised by \<open>urlparse\<close> and \<open>csv\<close>), \<open>ZeroDivisionError\<close>,
  \<open>IndexError\<close>, and any other \<open>Exception\<close>. \<open>HTTPError\<close> carries
  \<open>e.response.status_code\<close>; every constructor carries \<open>str(e)\<close>.
\<close>

datatype py_exn =
    Timeout string
  | HTTPError nat string
  | RequestException string
  | ValueError string
  | ZeroDivisionError string
  | IndexError string
  | Exception string

fun str_exn :: "py_exn \<Rightarrow> string" where
  "str_exn (Timeout m) = m"
| "str_exn (HTTPError c m) = m"
| "str_exn (RequestException m) = m"
| "str_exn (ValueError m) = m"
| "str_exn (ZeroDivisionError m) = m"
| "str_exn (IndexError m) = m"
| "str_exn (Exception m) = m"

section \<open>urllib.parse.urlparse\<close>

text \<open>
  The part of \<open>urlparse\<close> that computes \<open>netloc\<close> (CPython 3.12 \<open>urlsplit\<close>): leading C0
  control characters and spaces are stripped, TAB, CR and LF are removed, a scheme is
  split off, and after \<open>//\<close> the netloc runs to the first of \<open>/\<close>, \<open>?\<close>, \<open>#\<close>. Unbalanced
  square brackets raise \<open>ValueError\<close>. Two further checks of the library are parameters:
  \<open>bracketed_host_ok\<close> (the validation of a bracketed IPv6 or IPvFuture host) and
  \<open>nfkc_ok\<close> (the NFKC check of a netloc that is not ASCII); either raises \<open>ValueError\<close>
  when it fails.
\<close>

record url_checks =
  bracketed_host_ok :: "string \<Rightarrow> bool"
  nfkc_ok :: "string \<Rightarrow> bool"

record parse_result =
  scheme :: string
  netloc :: string
  rest :: string

definition scheme_char :: "char \<Rightarrow> bool" where
  "scheme_char c = (isalpha_char c \<or> isdigit_char c \<or> c \<in> set ''+-.'')"

text \<open>\<open>s.find(c)\<close>: the index of the first \<open>c\<close>, or \<open>None\<close> for Python's \<open>-1\<close>.\<close>

definition find_char :: "char \<Rightarrow> string \<Rightarrow> nat option" where
  "find_char c s = (if c \<in> set s then Some (length (takeWhile (\<lambda>d. d \<noteq> c) s)) else None)"

text \<open>\<open>_splitnetloc(url, 2)\<close>: the text between the leading \<open>//\<close> and the first delimiter.\<close>

definition splitnetloc :: "string \<Rightarrow> string \<times> string" where
  "splitnetloc url =
     (let body = drop 2 url;
          n = takeWhile (\<lambda>c. c \<notin> set ''/?#'') body
      in (n, drop (length n) body))"

text \<open>\<open>netloc.partition('[')[2].partition(']')[0]\<close>\<close>

definition bracketed_host :: "string \<Rightarrow> string" where
  "bracketed_host n =
     takeWhile (\<lambda>c. c \<noteq> CHR '']'') (drop 1 (dropWhile (\<lambda>c. c \<noteq> CHR ''['') n))"

definition split_scheme :: "string \<Rightarrow> string \<times> string" where
  "split_scheme url =
     (case find_char CHR '':'' url of
        None \<Rightarrow> ([], url)
      | Some i \<Rightarrow>
          if 0 < i \<and> isascii_char (hd url) \<and> isalpha_char (hd url)
             \<and> list_all scheme_char (take i url)
          then (lower (take i url), drop (Suc i) url)
          else ([], url))"

definition urlparse :: "url_checks \<Rightarrow> string \<Rightarrow> py_exn + parse_result" where
  "urlparse chk url0 =
     (let url1 = dropWhile (\<lambda>c. code c \<le> 32) url0;
          url2 = filter (\<lambda>c. code c \<notin> {9, 10, 13}) url1;
          (sch, url3) = split_scheme url2
      in if take 2 url3 = ''//'' then
           (let (n, url4) = splitnetloc url3;
                ob = CHR ''['' \<in> set n;
                cb = CHR '']'' \<in> set n
            in if (ob \<and> \<not> cb) \<or> (cb \<and> \<not> ob) then Inl (ValueError ''Invalid IPv6 URL'')
               else if ob \<and> cb \<and> \<not> bracketed_host_ok chk (bracketed_host n)
                 then Inl (ValueError ''invalid bracketed host'')
               else if n \<noteq> [] \<and> \<not> list_all isascii_char n \<and> \<not> nfkc_ok chk n
                 then Inl (ValueError ''netloc contains invalid characters under NFKC normalization'')
               else Inr \<lparr>scheme = sch, netloc = n, rest = url4\<rparr>)
         else Inr \<lparr>scheme = sch, netloc = [], rest = url3\<rparr>)"

text \<open>
  The \<open>hostname\<close> property of the parse result: the netloc without user information and
  port, lower-cased up to a zone separator.
\<close>

definition rpartition_at :: "string \<Rightarrow> string" where
  "rpartition_at n = rev (takeWhile (\<lambda>c. c \<noteq> CHR ''@'') (rev n))"

definition hostname :: "parse_result \<Rightarrow> string" where
  "hostname r =
     (let hostinfo = rpartition_at (netloc r);
          h = (if CHR ''['' \<in> set hostinfo then bracketed_host hostinfo
               else takeWhile (\<lambda>c. c \<noteq> CHR '':'') hostinfo);
          name = takeWhile (\<lambda>c. c \<noteq> CHR ''%'') h
      in lower name @ drop (length name) h)"

section \<open>The scraper\<close>

subsection \<open>\<open>validate_url\<close>\<close>

text \<open>
  \<open>validate_url\<close>: the bare \<open>except\<close> turns every exception of \<open>urlparse\<close> into \<open>False\<close>.
\<close>

definition validate_url :: "url_checks \<Rightarrow> string \<Rightarrow> bool" where
  "validate_url chk url =
     (case urlparse chk url of
        Inl e \<Rightarrow> False
      | Inr parsed \<Rightarrow> py_in ''zillow.com'' (lower (netloc parsed)))"

subsection \<open>The Document Model\<close>

text \<open>
  The extractors reach the parsed page only through \<open>BeautifulSoup\<close> calls. The calls they
  make are the fields of \<open>document\<close>; \<open>'e\<close> is the type of the page's elements (tags and
  text nodes). Every call may raise. \<open>soup_find\<close> and \<open>soup_find_all\<close> are \<open>soup.find\<close> and
  \<open>soup.find_all\<close> on the whole page, \<open>get_text\<close> is \<open>element.get_text(strip=True)\<close>,
  \<open>find_next\<close> is \<open>element.find_next(name)\<close>, and \<open>str_of\<close> is the text of a text node (a
  \<open>NavigableString\<close> is a \<open>str\<close>).

  An attribute filter is a string, matched exactly, or a function of the attribute's
  value (\<open>None\<close> when the attribute is absent), as is the \<open>string=\<close> filter.
\<close>

datatype matcher = Exact string | Pred "string option \<Rightarrow> bool"

type_synonym attrs = "(string \<times> matcher) list"

record 'e document =
  soup_find :: "string \<Rightarrow> attrs \<Rightarrow> py_exn + 'e option"
  soup_find_all :: "string option \<Rightarrow> attrs \<Rightarrow> (string option \<Rightarrow> bool) option \<Rightarrow> py_exn + 'e list"
  get_text :: "'e \<Rightarrow> py_exn + string"
  find_parent :: "'e \<Rightarrow> py_exn + 'e option"
  find_next :: "'e \<Rightarrow> string \<Rightarrow> py_exn + 'e option"
  find_next_siblings :: "'e \<Rightarrow> py_exn + 'e list"
  find_previous_sibling :: "'e \<Rightarrow> py_exn + 'e option"
  str_of :: "'e \<Rightarrow> string"

text \<open>
  \<open>lambda x: x and p(x) if x else False\<close> and \<open>lambda x: x and p(x)\<close>: false on \<open>None\<close> and
  on the empty string, \<open>p x\<close> otherwise.
\<close>

definition truthy_and :: "(string \<Rightarrow> bool) \<Rightarrow> string option \<Rightarrow> bool" where
  "truthy_and p x = (case x of None \<Rightarrow> False | Some s \<Rightarrow> s \<noteq> [] \<and> p s)"

text \<open>
  A \<open>for\<close> loop whose body may \<open>return\<close>: \<open>Inr (Some v)\<close> when the body returned \<open>v\<close> at
  some element, \<open>Inr None\<close> when the loop ran to its end, \<open>Inl e\<close> when the body raised.
\<close>

fun for_return :: "('a \<Rightarrow> py_exn + 'b option) \<Rightarrow> 'a list \<Rightarrow> py_exn + 'b option" where
  "for_return body [] = Inr None"
| "for_return body (x # xs) =
     (case body x of
        Inl e \<Rightarrow> Inl e
      | Inr (Some v) \<Rightarrow> Inr (Some v)
      | Inr None \<Rightarrow> for_return body xs)"

text \<open>Sequencing of two statements the first of which may raise.\<close>

definition bind :: "py_exn + 'a \<Rightarrow> ('a \<Rightarrow> py_exn + 'b) \<Rightarrow> py_exn + 'b" where
  "bind m f = (case m of Inl e \<Rightarrow> Inl e | Inr x \<Rightarrow> f x)"

text \<open>
  \<open>try: body; except Exception: pass; return 'N/A'\<close>: the value the body returned, \<open>'N/A'\<close>
  when it raised or ran to its end.
\<close>

definition try_or_na :: "py_exn + string option \<Rightarrow> string" where
  "try_or_na body = (case body of Inl e \<Rightarrow> ''N/A'' | Inr None \<Rightarrow> ''N/A'' | Inr (Some v) \<Rightarrow> v)"

subsection \<open>\<open>_extract_address\<close>\<close>

definition address_selectors :: "(string \<times> attrs) list" where
  "address_selectors =
     [(''h1'', [(''class'', Exact ''ds-address-container'')]),
      (''h1'', [(''data-testid'', Exact ''bdp-address'')]),
      (''h1'', [])]"

text \<open>The function has no \<open>try\<close>: an exception of a \<open>BeautifulSoup\<close> call leaves it.\<close>

definition extract_address :: "'e document \<Rightarrow> py_exn + string" where
  "extract_address soup =
     bind (for_return
            (\<lambda>(tag, attrs).
               bind (soup_find soup tag attrs) (\<lambda>element.
                 case element of
                   None \<Rightarrow> Inr None
                 | Some el \<Rightarrow>
                     bind (get_text soup el) (\<lambda>address_text.
                       if address_text \<noteq> [] then Inr (Some address_text) else Inr None)))
            address_selectors)
       (\<lambda>r. case r of Some v \<Rightarrow> Inr v | None \<Rightarrow> Inr ''N/A'')"

subsection \<open>\<open>_extract_lot_size\<close>\<close>

definition lot_keywords :: "string list" where
  "lot_keywords = [''Lot size'', ''Lot Size'', ''lot size'']"

definition lot_units :: "string list" where
  "lot_units = [''sqft'', ''sq ft'', ''acres'', ''acre'']"

text \<open>Method 1, the body of the loop over \<open>spans\<close> for one keyword.\<close>

definition lot_span :: "'e document \<Rightarrow> string \<Rightarrow> 'e \<Rightarrow> py_exn + string option" where
  "lot_span soup keyword span =
     bind (find_parent soup span) (\<lambda>parent.
       case parent of
         None \<Rightarrow> Inr None
       | Some p \<Rightarrow>
           bind (find_next soup p ''span'') (\<lambda>next_span.
             case next_span of
               None \<Rightarrow> Inr None
             | Some ns \<Rightarrow>
                 bind (get_text soup ns) (\<lambda>lot_text.
                   if lot_text \<noteq> [] \<and> lot_text \<noteq> keyword then Inr (Some lot_text)
                   else Inr None)))"

definition lot_method1 :: "'e document \<Rightarrow> py_exn + string option" where
  "lot_method1 soup =
     for_return
       (\<lambda>keyword.
          bind (soup_find_all soup (Some ''span'') [] (Some (truthy_and (py_in keyword))))
            (for_return (lot_span soup keyword)))
       lot_keywords"

definition lot_method2 :: "'e document \<Rightarrow> py_exn + string option" where
  "lot_method2 soup =
     bind (soup_find_all soup (Some ''span'')
             [(''data-testid'', Pred (truthy_and (\<lambda>x. py_in ''lot'' (lower x))))] None)
       (for_return
          (\<lambda>fact.
             bind (get_text soup fact) (\<lambda>text.
               if list_ex (\<lambda>unit. py_in unit (lower text)) lot_units then Inr (Some text)
               else Inr None)))"

text \<open>The body of the \<open>try\<close>: method 1, then method 2.\<close>

definition lot_size_body :: "'e document \<Rightarrow> py_exn + string option" where
  "lot_size_body soup =
     bind (lot_method1 soup) (\<lambda>r.
       case r of Some v \<Rightarrow> Inr (Some v) | None \<Rightarrow> lot_method2 soup)"

definition extract_lot_size :: "'e document \<Rightarrow> string" where
  "extract_lot_size soup = try_or_na (lot_size_body soup)"

subsection \<open>\<open>_extract_price\<close>\<close>

definition class_has_price :: "string option \<Rightarrow> bool" where
  "class_has_price = truthy_and (\<lambda>x. py_in ''price'' (lower x))"

definition price_selectors :: "(string \<times> attrs) list" where
  "price_selectors =
     [(''span'', [(''data-testid'', Exact ''price'')]),
      (''span'', [(''class'', Pred class_has_price)]),
      (''div'', [(''class'', Pred class_has_price)])]"

definition price_selector :: "'e document \<Rightarrow> string \<times> attrs \<Rightarrow> py_exn + string option" where
  "price_selector soup = (\<lambda>(tag, attrs).
     bind (soup_find soup tag attrs) (\<lambda>element.
       case element of
         None \<Rightarrow> Inr None
       | Some el \<Rightarrow>
           bind (get_text soup el) (\<lambda>price_text.
             if price_text \<noteq> [] \<and> py_in ''$'' price_text then Inr (Some price_text)
             else Inr None)))"

definition dollar_and_digit :: "string option \<Rightarrow> bool" where
  "dollar_and_digit = truthy_and (\<lambda>text. py_in ''$'' text \<and> list_ex isdigit_char text)"

text \<open>
  The body of the loop over \<open>all_text\<close>; \<open>text.split()[0]\<close> raises \<open>IndexError\<close> on an empty
  list.
\<close>

definition price_text_node :: "string \<Rightarrow> py_exn + string option" where
  "price_text_node text0 =
     (let text = strip text0
      in if startswith text ''$'' \<and> py_in '','' text then
           (case split text of
              [] \<Rightarrow> Inl (IndexError ''list index out of range'')
            | w # ws \<Rightarrow> Inr (Some w))
         else Inr None)"

definition price_fallback :: "'e document \<Rightarrow> py_exn + string option" where
  "price_fallback soup =
     bind (soup_find_all soup None [] (Some dollar_and_digit))
       (for_return (\<lambda>text. price_text_node (str_of soup text)))"

text \<open>The body of the \<open>try\<close>: the selectors, then the scan of the text nodes.\<close>

definition price_body :: "'e document \<Rightarrow> py_exn + string option" where
  "price_body soup =
     bind (for_return (price_selector soup) price_selectors) (\<lambda>r.
       case r of Some v \<Rightarrow> Inr (Some v) | None \<Rightarrow> price_fallback soup)"

definition extract_price :: "'e document \<Rightarrow> string" where
  "extract_price soup = try_or_na (price_body soup)"

subsection \<open>\<open>_extract_price_per_sqft\<close>\<close>

definition sqft_patterns :: "string list" where
  "sqft_patterns = [''$/sqft'', ''per sqft'', ''Price/sqft'']"

definition text_with_dollar :: "'e document \<Rightarrow> 'e \<Rightarrow> py_exn + string option" where
  "text_with_dollar soup el =
     bind (get_text soup el) (\<lambda>text.
       if text \<noteq> [] \<and> py_in ''$'' text then Inr (Some text) else Inr None)"

definition sqft_span :: "'e document \<Rightarrow> 'e \<Rightarrow> py_exn + string option" where
  "sqft_span soup span =
     bind (find_parent soup span) (\<lambda>parent.
       case parent of
         None \<Rightarrow> Inr None
       | Some p \<Rightarrow>
           bind (find_next_siblings soup p) (\<lambda>siblings.
             bind (for_return (text_with_dollar soup) siblings) (\<lambda>r.
               case r of
                 Some v \<Rightarrow> Inr (Some v)
               | None \<Rightarrow>
                   bind (find_previous_sibling soup p) (\<lambda>prev.
                     case prev of
                       None \<Rightarrow> Inr None
                     | Some pv \<Rightarrow> text_with_dollar soup pv))))"

definition sqft_labels :: "'e document \<Rightarrow> py_exn + string option" where
  "sqft_labels soup =
     for_return
       (\<lambda>pattern.
          bind (soup_find_all soup (Some ''span'') []
                  (Some (truthy_and (\<lambda>text. py_in (lower pattern) (lower text)))))
            (for_return (sqft_span soup)))
       sqft_patterns"

definition sqft_testid :: "'e document \<Rightarrow> py_exn + string option" where
  "sqft_testid soup =
     bind (soup_find soup ''span''
             [(''data-testid'', Pred (truthy_and (\<lambda>x. py_in ''price-per-sqft'' (lower x))))])
       (\<lambda>price_sqft_elem.
          case price_sqft_elem of
            None \<Rightarrow> Inr None
          | Some el \<Rightarrow> bind (get_text soup el) (\<lambda>text. Inr (Some text)))"

text \<open>The body of the \<open>try\<close>: the labels, then the \<open>data-testid\<close> attribute.\<close>

definition sqft_body :: "'e document \<Rightarrow> py_exn + string option" where
  "sqft_body soup =
     bind (sqft_labels soup) (\<lambda>r.
       case r of Some v \<Rightarrow> Inr (Some v) | None \<Rightarrow> sqft_testid soup)"

definition extract_price_per_sqft :: "'e document \<Rightarrow> string" where
  "extract_price_per_sqft soup = try_or_na (sqft_body soup)"

subsection \<open>\<open>_extract_days_on_market\<close>\<close>

definition days_keywords :: "string list" where
  "days_keywords = [''Time on Zillow'', ''Days on Zillow'', ''on Zillow'', ''Days on market'']"

text \<open>\<open>word.isdigit() or word.replace(',', '').isdigit()\<close>\<close>

definition numeric_word :: "string \<Rightarrow> bool" where
  "numeric_word word = (isdigit word \<or> isdigit (remove_commas word))"

text \<open>
  The loop over \<open>enumerate(words)\<close>: the argument is the part of \<open>words\<close> from index \<open>i\<close> on,
  so \<open>words[i + 1]\<close> exists when the rest after \<open>word\<close> is not empty.
\<close>

fun days_words :: "string \<Rightarrow> string list \<Rightarrow> string option" where
  "days_words full_text [] = None"
| "days_words full_text (word # ws) =
     (if numeric_word word then
        (if ws \<noteq> [] \<and> py_in ''day'' (lower (hd ws)) then Some (word @ '' days'')
         else if py_in ''zillow'' (lower full_text) \<or> py_in ''market'' (lower full_text)
           then Some (word @ '' days'')
         else days_words full_text ws)
      else days_words full_text ws)"

definition days_elem :: "'e document \<Rightarrow> 'e \<Rightarrow> py_exn + string option" where
  "days_elem soup elem =
     bind (find_parent soup elem) (\<lambda>parent.
       case parent of
         None \<Rightarrow> Inr None
       | Some p \<Rightarrow>
           bind (get_text soup p) (\<lambda>full_text. Inr (days_words full_text (split full_text))))"

definition days_body :: "'e document \<Rightarrow> py_exn + string option" where
  "days_body soup =
     for_return
       (\<lambda>keyword.
          bind (soup_find_all soup None []
                  (Some (truthy_and (\<lambda>text. py_in (lower keyword) (lower text)))))
            (for_return (days_elem soup)))
       days_keywords"

definition extract_days_on_market :: "'e document \<Rightarrow> string" where
  "extract_days_on_market soup = try_or_na (days_body soup)"

subsection \<open>\<open>extract_property_data\<close>\<close>

text \<open>
  The record is a Python \<open>dict\<close>: an association list in insertion order, whose values are
  strings or \<open>None\<close>. \<open>result[k] = v\<close> is \<open>AList.update\<close>: an existing key keeps its place.
\<close>

type_synonym pydict = "(string \<times> string option) list"

text \<open>
  The world outside the function: the clock (\<open>datetime.now()\<close>, formatted), the network
  (\<open>self.session.get\<close>) and the HTML parser (the \<open>BeautifulSoup\<close> constructor), besides the
  library checks of \<open>urlparse\<close>.
\<close>

record response =
  status_code :: nat
  reason :: string
  response_text :: string

record 'e env =
  now :: string
  checks :: url_checks
  session_get :: "string \<Rightarrow> py_exn + response"
  BeautifulSoup :: "string \<Rightarrow> py_exn + 'e document"

text \<open>\<open>response.raise_for_status()\<close>: \<open>HTTPError\<close> for a status from 400 to 599.\<close>

definition raise_for_status :: "string \<Rightarrow> response \<Rightarrow> py_exn + unit" where
  "raise_for_status url r =
     (if 400 \<le> status_code r \<and> status_code r < 500 then
        Inl (HTTPError (status_code r)
               (str_nat (status_code r) @ '' Client Error: '' @ reason r @ '' for url: '' @ url))
      else if 500 \<le> status_code r \<and> status_code r < 600 then
        Inl (HTTPError (status_code r)
               (str_nat (status_code r) @ '' Server Error: '' @ reason r @ '' for url: '' @ url))
      else Inr ())"

text \<open>
  What the function does besides building the record: the network request, the parse of
  the page and each extractor call, in the order they happen.
\<close>

datatype event = NetworkGet string | ParseHTML | Extract string

definition initial_result :: "'e env \<Rightarrow> string \<Rightarrow> pydict" where
  "initial_result e url =
     [(''url'', Some url),
      (''address'', Some ''N/A''),
      (''lot_size'', Some ''N/A''),
      (''price'', Some ''N/A''),
      (''price_per_sqft'', Some ''N/A''),
      (''days_on_market'', Some ''N/A''),
      (''scrape_timestamp'', Some (now e)),
      (''error'', None)]"

text \<open>
  The body of the \<open>try\<close>. It returns the record and the events at the point where it
  ended, and the exception that ended it, if any: an assignment made before the exception
  stays in the record.
\<close>

definition extract_fields :: "'e document \<Rightarrow> pydict \<Rightarrow> event list \<Rightarrow> py_exn option \<times> pydict \<times> event list" where
  "extract_fields soup result ev =
     (case extract_address soup of
        Inl ex \<Rightarrow> (Some ex, result, ev @ [Extract ''address''])
      | Inr a \<Rightarrow>
          (None,
           AList.update ''days_on_market'' (Some (extract_days_on_market soup))
             (AList.update ''price_per_sqft'' (Some (extract_price_per_sqft soup))
               (AList.update ''price'' (Some (extract_price soup))
                 (AList.update ''lot_size'' (Some (extract_lot_size soup))
                   (AList.update ''address'' (Some a) result)))),
           ev @ [Extract ''address'', Extract ''lot_size'', Extract ''price'',
                 Extract ''price_per_sqft'', Extract ''days_on_market'']))"

definition try_body :: "'e env \<Rightarrow> string \<Rightarrow> pydict \<Rightarrow> py_exn option \<times> pydict \<times> event list" where
  "try_body e url result =
     (case session_get e url of
        Inl ex \<Rightarrow> (Some ex, result, [NetworkGet url])
      | Inr resp \<Rightarrow>
          (case raise_for_status url resp of
             Inl ex \<Rightarrow> (Some ex, result, [NetworkGet url])
           | Inr u \<Rightarrow>
               (case BeautifulSoup e (response_text resp) of
                  Inl ex \<Rightarrow> (Some ex, result, [NetworkGet url, ParseHTML])
                | Inr soup \<Rightarrow> extract_fields soup result [NetworkGet url, ParseHTML])))"

text \<open>The \<open>except\<close> clauses, in the order of the source.\<close>

fun error_tag :: "py_exn \<Rightarrow> string" where
  "error_tag (Timeout m) = ''Request timeout''"
| "error_tag (HTTPError c m) = ''HTTP '' @ str_nat c"
| "error_tag (RequestException m) = ''Request failed: '' @ m"
| "error_tag ex = ''Parsing error: '' @ str_exn ex"

definition extract_property_data :: "'e env \<Rightarrow> string \<Rightarrow> pydict \<times> event list" where
  "extract_property_data e url =
     (let result = initial_result e url
      in if \<not> validate_url (checks e) url then
           (AList.update ''error'' (Some ''Invalid Zillow URL'') result, [])
         else
           (case try_body e url result of
              (None, result', ev) \<Rightarrow> (result', ev)
            | (Some ex, result', ev) \<Rightarrow>
                (AList.update ''error'' (Some (error_tag ex)) result', ev)))"

text \<open>\<open>result[k]\<close> for a key of the record.\<close>

definition field :: "pydict \<Rightarrow> string \<Rightarrow> string option" where
  "field d k = (case map_of d k of Some v \<Rightarrow> v | None \<Rightarrow> None)"

definition data_fields :: "string list" where
  "data_fields = [''address'', ''lot_size'', ''price'', ''price_per_sqft'', ''days_on_market'']"

text \<open>
  The record of a URL that was not scraped: every data field is \<open>N/A\<close>, and \<open>error\<close> holds
  the tag.
\<close>

definition failure_record :: "'e env \<Rightarrow> string \<Rightarrow> string \<Rightarrow> pydict" where
  "failure_record e url tag =
     [(''url'', Some url),
      (''address'', Some ''N/A''),
      (''lot_size'', Some ''N/A''),
      (''price'', Some ''N/A''),
      (''price_per_sqft'', Some ''N/A''),
      (''days_on_market'', Some ''N/A''),
      (''scrape_timestamp'', Some (now e)),
      (''error'', Some tag)]"

subsection \<open>\<open>scrape_urls\<close>\<close>








section \<open>The page as BeautifulSoup builds it\<close>

text \<open>
  The tree \<open>BeautifulSoup(html, 'html.parser')\<close> returns (bs4 4.12): a node is a tag, with
  its name, attributes and children, or a string, with its class. An attribute value is a
  string, or a list of strings for the multi-valued attributes (\<open>class\<close>). The
  \<open>BeautifulSoup\<close> object is itself a tag, named \<open>[document]\<close>.
\<close>

datatype string_type =
    NavigableString | CData | Comment | Declaration | Doctype | ProcessingInstruction
  | Stylesheet | Script | TemplateString | RubyTextString | RubyParenthesisString

datatype attr_value = Single string | Multi "string list"

datatype node =
    Tag string "(string \<times> attr_value) list" "node list"
  | Text string_type string

text \<open>An element of the page is named by its path from the root: the child indices.\<close>

type_synonym path = "nat list"

fun node_at :: "node \<Rightarrow> path \<Rightarrow> node option" where
  "node_at n [] = Some n"
| "node_at (Tag nm as cs) (i # p) = (if i < length cs then node_at (cs ! i) p else None)"
| "node_at (Text k s) (i # p) = None"

text \<open>
  Document order: a node, then its children's subtrees from left to right. \<open>subtree n\<close>
  lists the nodes of \<open>n\<close> with their paths from \<open>n\<close>, \<open>n\<close> itself first.
\<close>

fun subtree :: "node \<Rightarrow> (path \<times> node) list"
  and forest :: "nat \<Rightarrow> node list \<Rightarrow> (path \<times> node) list" where
  "subtree (Text k s) = [([], Text k s)]"
| "subtree (Tag nm as cs) = ([], Tag nm as cs) # forest 0 cs"
| "forest i [] = []"
| "forest i (c # cs) = map (\<lambda>(p, x). (i # p, x)) (subtree c) @ forest (Suc i) cs"

text \<open>\<open>tag.descendants\<close>\<close>

definition descendants :: "node \<Rightarrow> (path \<times> node) list" where
  "descendants n = tl (subtree n)"

text \<open>\<open>element.next_elements\<close>: everything after the element in document order.\<close>

definition next_elements :: "node \<Rightarrow> path \<Rightarrow> (path \<times> node) list" where
  "next_elements root p = tl (dropWhile (\<lambda>(q, x). q \<noteq> p) (subtree root))"

definition is_tag :: "node \<Rightarrow> bool" where
  "is_tag n = (case n of Tag nm as cs \<Rightarrow> True | Text k s \<Rightarrow> False)"

definition children :: "node \<Rightarrow> node list" where
  "children n = (case n of Tag nm as cs \<Rightarrow> cs | Text k s \<Rightarrow> [])"

text \<open>
  \<open>tag.string\<close>: the string of a tag with a single child that is a string, or whose
  single child has such a string.
\<close>

fun node_string :: "node \<Rightarrow> string option" where
  "node_string (Text k s) = Some s"
| "node_string (Tag nm as cs) = (case cs of [c] \<Rightarrow> node_string c | _ \<Rightarrow> None)"

text \<open>All strings under a node, in document order, with their classes.\<close>

fun strings :: "node \<Rightarrow> (string_type \<times> string) list" where
  "strings (Text k s) = [(k, s)]"
| "strings (Tag nm as cs) = concat (map strings cs)"

text \<open>
  The string classes \<open>get_text\<close> reads under a tag: those of the tag's string container
  (\<open>script\<close>, \<open>style\<close>, \<open>template\<close>, \<open>rt\<close>, \<open>rp\<close>), otherwise \<open>NavigableString\<close> and \<open>CData\<close>.
\<close>

definition interesting_string_types :: "string \<Rightarrow> string_type list" where
  "interesting_string_types nm =
     (if nm = ''rt'' then [RubyTextString]
      else if nm = ''rp'' then [RubyParenthesisString]
      else if nm = ''style'' then [Stylesheet]
      else if nm = ''script'' then [Script]
      else if nm = ''template'' then [TemplateString]
      else [NavigableString, CData])"

text \<open>
  \<open>element.get_text(strip=True)\<close>: the strings of the interesting classes, each stripped,
  the empty ones dropped, joined with no separator.
\<close>

definition stripped_strings :: "string_type list \<Rightarrow> (string_type \<times> string) list \<Rightarrow> string list" where
  "stripped_strings types xs =
     filter (\<lambda>s. s \<noteq> []) (map (\<lambda>(k, s). strip s) (filter (\<lambda>(k, s). k \<in> set types) xs))"

definition get_text_strip :: "node \<Rightarrow> string" where
  "get_text_strip n =
     (case n of
        Tag nm as cs \<Rightarrow> concat (stripped_strings (interesting_string_types nm) (strings n))
      | Text k s \<Rightarrow> concat (stripped_strings [NavigableString, CData] [(k, s)]))"

subsection \<open>\<open>SoupStrainer\<close>\<close>

text \<open>\<open>' '.join(items)\<close>\<close>

fun join_space :: "string list \<Rightarrow> string" where
  "join_space [] = []"
| "join_space [x] = x"
| "join_space (x # y # ys) = x @ '' '' @ join_space (y # ys)"

text \<open>
  \<open>SoupStrainer._matches\<close> on an attribute value: a list matches when one of its items
  does, or when the items joined by spaces do; an absent value matches only the empty
  string; a function is called on the value.
\<close>

definition matches_value :: "string option \<Rightarrow> matcher \<Rightarrow> bool" where
  "matches_value v m =
     (case m of
        Pred f \<Rightarrow> f v
      | Exact s \<Rightarrow> (case v of None \<Rightarrow> s = [] | Some t \<Rightarrow> t = s))"

definition matches :: "attr_value option \<Rightarrow> matcher \<Rightarrow> bool" where
  "matches v m =
     (case v of
        None \<Rightarrow> matches_value None m
      | Some (Single t) \<Rightarrow> matches_value (Some t) m
      | Some (Multi items) \<Rightarrow>
          list_ex (\<lambda>t. matches_value (Some t) m) items \<or> matches_value (Some (join_space items)) m)"

text \<open>
  \<open>SoupStrainer.search_tag\<close>: the name, then every attribute filter, then the \<open>string=\<close>
  filter on \<open>tag.string\<close>.
\<close>

definition search_tag :: "string option \<Rightarrow> attrs \<Rightarrow> (string option \<Rightarrow> bool) option \<Rightarrow> node \<Rightarrow> bool" where
  "search_tag name attrs strf n =
     (case n of
        Text k s \<Rightarrow> False
      | Tag nm as cs \<Rightarrow>
          (case name of None \<Rightarrow> True | Some x \<Rightarrow> nm = x)
          \<and> list_all (\<lambda>(attr, m). matches (map_of as attr) m) attrs
          \<and> (case strf of None \<Rightarrow> True | Some f \<Rightarrow> f (node_string n)))"

text \<open>
  \<open>SoupStrainer.search\<close>: a tag is looked at unless only a \<open>string=\<close> filter is given; a
  string is looked at only when no name and no attribute filter is given, and matches
  the \<open>string=\<close> filter.
\<close>

definition search :: "string option \<Rightarrow> attrs \<Rightarrow> (string option \<Rightarrow> bool) option \<Rightarrow> node \<Rightarrow> bool" where
  "search name attrs strf n =
     (case n of
        Tag nm as cs \<Rightarrow> (strf = None \<or> name \<noteq> None \<or> attrs \<noteq> []) \<and> search_tag name attrs strf n
      | Text k s \<Rightarrow>
          name = None \<and> attrs = [] \<and> (case strf of None \<Rightarrow> False | Some f \<Rightarrow> f (Some s)))"

text \<open>\<open>if i:\<close> in \<open>_find_all\<close>: a tag is true, a string is true when it is not empty.\<close>

definition truthy :: "node \<Rightarrow> bool" where
  "truthy n = (case n of Tag nm as cs \<Rightarrow> True | Text k s \<Rightarrow> s \<noteq> [])"

text \<open>\<open>_find_all\<close> over a generator of elements.\<close>

definition find_all_in :: "string option \<Rightarrow> attrs \<Rightarrow> (string option \<Rightarrow> bool) option \<Rightarrow> (path \<times> node) list \<Rightarrow> path list" where
  "find_all_in name attrs strf gen =
     map fst (filter (\<lambda>(p, n). truthy n \<and> search name attrs strf n) gen)"

definition first_of :: "'a list \<Rightarrow> 'a option" where
  "first_of xs = (case xs of [] \<Rightarrow> None | x # ys \<Rightarrow> Some x)"

subsection \<open>Navigation\<close>

text \<open>
  \<open>find_next_siblings()\<close> and \<open>find_previous_sibling()\<close> with no filter: the tags among the
  siblings after the element, and the nearest tag among the siblings before it.
\<close>

definition sibling_tags :: "node \<Rightarrow> path \<Rightarrow> nat list \<Rightarrow> path list" where
  "sibling_tags root parent js =
     (case node_at root parent of
        None \<Rightarrow> []
      | Some pn \<Rightarrow>
          map (\<lambda>j. parent @ [j])
            (filter (\<lambda>j. j < length (children pn) \<and> is_tag (children pn ! j)) js))"

definition next_sibling_tags :: "node \<Rightarrow> path \<Rightarrow> path list" where
  "next_sibling_tags root p =
     (if p = [] then []
      else case node_at root (butlast p) of
             None \<Rightarrow> []
           | Some pn \<Rightarrow> sibling_tags root (butlast p) [Suc (last p) ..< length (children pn)])"

definition previous_sibling_tag :: "node \<Rightarrow> path \<Rightarrow> path option" where
  "previous_sibling_tag root p =
     (if p = [] then None
      else first_of (sibling_tags root (butlast p) (rev [0 ..< last p])))"

text \<open>The \<open>BeautifulSoup\<close> calls of the extractors on the tree \<open>root\<close>. None of them raises.\<close>

definition bs4 :: "node \<Rightarrow> path document" where
  "bs4 root =
     \<lparr>soup_find = (\<lambda>tag attrs. Inr (first_of (find_all_in (Some tag) attrs None (descendants root)))),
      soup_find_all = (\<lambda>name attrs strf. Inr (find_all_in name attrs strf (descendants root))),
      get_text = (\<lambda>p. Inr (case node_at root p of None \<Rightarrow> [] | Some n \<Rightarrow> get_text_strip n)),
      find_parent = (\<lambda>p. Inr (if p = [] then None else Some (butlast p))),
      find_next = (\<lambda>p name. Inr (first_of (find_all_in (Some name) [] None (next_elements root p)))),
      find_next_siblings = (\<lambda>p. Inr (next_sibling_tags root p)),
      find_previous_sibling = (\<lambda>p. Inr (previous_sibling_tag root p)),
      str_of = (\<lambda>p. case node_at root p of Some (Text k s) \<Rightarrow> s | _ \<Rightarrow> [])\<rparr>"

section \<open>The behaviour of the extractors, stated on the tree\<close>






definition attr :: "node \<Rightarrow> string \<Rightarrow> attr_value option" where
  "attr n a = (case n of Tag nm as cs \<Rightarrow> map_of as a | Text k s \<Rightarrow> None)"


subsection \<open>Lot size, first strategy\<close>





subsection \<open>Price\<close>




subsection \<open>Days on market\<close>





section \<open>Example inputs\<close>

definition any_host :: url_checks where
  "any_host = \<lparr>bracketed_host_ok = (\<lambda>h. True), nfkc_ok = (\<lambda>n. True)\<rparr>"

definition page :: "node list \<Rightarrow> node" where
  "page cs = Tag ''[document]'' [] cs"

definition plain :: "string \<Rightarrow> node" where
  "plain s = Text NavigableString s"

text \<open>
  \<open><h1 data-testid="bdp-address">123 Main St, Springfield</h1>
  <span data-testid="price">$350,000</span>\<close>
\<close>

definition listing_page :: node where
  "listing_page =
     page [Tag ''h1'' [(''data-testid'', Single ''bdp-address'')] [plain ''123 Main St, Springfield''],
           Tag ''span'' [(''data-testid'', Single ''price'')] [plain ''$350,000'']]"





definition ok_response :: response where
  "ok_response = \<lparr>status_code = 200, reason = ''OK'', response_text = ''<html></html>''\<rparr>"


definition not_found_response :: response where
  "not_found_response =
     \<lparr>status_code = 404, reason = ''Not Found'', response_text = ''<h1>Not found</h1>''\<rparr>"

text \<open>
  A world at time \<open>t\<close> whose network answers \<open>get\<close> and whose parser builds \<open>listing_page\<close>.
\<close>

definition world_at :: "string \<Rightarrow> (string \<Rightarrow> py_exn + response) \<Rightarrow> path env" where
  "world_at t get =
     \<lparr>now = t, checks = any_host, session_get = get,
      BeautifulSoup = (\<lambda>html. Inr (bs4 listing_page))\<rparr>"

definition zillow_url :: string where
  "zillow_url = ''https://www.zillow.com/homedetails/123-Main-St''"


section \<open>Loops, sequencing and strings\<close>

lemma for_return_SomeD:
  "for_return body xs = Inr (Some v) \<Longrightarrow> \<exists>x \<in> set xs. body x = Inr (Some v)"
  by (induction xs) (auto split: sum.splits option.splits)

lemma bind_InrD: "bind m f = Inr y \<Longrightarrow> \<exists>x. m = Inr x \<and> f x = Inr y"
  by (cases m) (auto simp: bind_def)

lemma split_acc_word:
  "w \<noteq> [] \<Longrightarrow> split_acc w cs =
     (rev w @ takeWhile (\<lambda>c. \<not> isspace c) cs) # split_acc [] (dropWhile (\<lambda>c. \<not> isspace c) cs)"
proof (induction cs arbitrary: w)
  case Nil
  then show ?case by simp
next
  case (Cons c cs)
  then show ?case by (cases "isspace c") simp_all
qed

lemma split_nonspace_head:
  "\<not> isspace c \<Longrightarrow> split (c # cs) =
     (c # takeWhile (\<lambda>c. \<not> isspace c) cs) # split (dropWhile (\<lambda>c. \<not> isspace c) cs)"
  by (simp add: split_def split_acc_word)

lemma dollar_not_space: "\<not> isspace (CHR ''$'')"
  by (simp add: isspace_def code_def)

lemma startswith_dollar: "startswith s ''$'' \<longleftrightarrow> (\<exists>t. s = CHR ''$'' # t)"
  by (cases s) (auto simp: startswith_def)

section \<open>The price extractor\<close>

lemma price_text_node_first_token:
  "price_text_node t =
     (if startswith (strip t) ''$'' \<and> py_in '','' (strip t)
      then Inr (Some (takeWhile (\<lambda>c. \<not> isspace c) (strip t))) else Inr None)"
  by (auto simp: price_text_node_def Let_def startswith_dollar split_nonspace_head dollar_not_space)

lemma price_text_node_dollar: "price_text_node t = Inr (Some w) \<Longrightarrow> py_in ''$'' w"
  by (auto simp: price_text_node_first_token startswith_dollar dollar_not_space split: if_splits)

lemma price_selector_dollar: "price_selector d sel = Inr (Some v) \<Longrightarrow> py_in ''$'' v"
  by (cases sel) (auto simp: price_selector_def dest!: bind_InrD split: option.splits if_splits)

text \<open>
  Claim C10. For every document, the price extractor returns the sentinel \<open>N/A\<close> or a
  string that contains a dollar sign. The document is any implementation of the Document
  Model, so the statement covers every tree and every way the \<open>BeautifulSoup\<close> calls can
  answer or raise.
\<close>

theorem price_sentinel_or_dollar:
  "extract_price d = ''N/A'' \<or> py_in ''$'' (extract_price d)"
proof (cases "for_return (price_selector d) price_selectors")
  case (Inl e)
  then show ?thesis by (simp add: extract_price_def price_body_def try_or_na_def bind_def)
next
  case (Inr r)
  show ?thesis
  proof (cases r)
    case (Some v)
    with Inr have "\<exists>x \<in> set price_selectors. price_selector d x = Inr (Some v)"
      by (auto dest: for_return_SomeD)
    then have "py_in ''$'' v" by (auto dest: price_selector_dollar)
    with Inr Some show ?thesis by (simp add: extract_price_def price_body_def try_or_na_def bind_def)
  next
    case None
    show ?thesis
    proof (cases "price_fallback d")
      case (Inl e)
      with Inr None show ?thesis by (simp add: extract_price_def price_body_def try_or_na_def bind_def)
    next
      case fb: (Inr r')
      show ?thesis
      proof (cases r')
        case None
        with Inr \<open>r = None\<close> fb show ?thesis
          by (simp add: extract_price_def price_body_def try_or_na_def bind_def)
      next
        case (Some w)
        with fb have "py_in ''$'' w"
          by (auto simp: price_fallback_def dest!: bind_InrD for_return_SomeD price_text_node_dollar)
        with Inr \<open>r = None\<close> fb Some show ?thesis
          by (simp add: extract_price_def price_body_def try_or_na_def bind_def)
      qed
    qed
  qed
qed

section \<open>The record\<close>

lemma initial_error:
  "AList.update ''error'' (Some tag) (initial_result e url) = failure_record e url tag"
  by (simp add: initial_result_def failure_record_def)

lemma invalid_url_record:
  "\<not> validate_url (checks e) url \<Longrightarrow>
   extract_property_data e url = (failure_record e url ''Invalid Zillow URL'', [])"
  by (simp add: extract_property_data_def Let_def initial_error)

lemma validate_url_parse_error: "urlparse chk url = Inl ex \<Longrightarrow> \<not> validate_url chk url"
  by (simp add: validate_url_def)

lemma validate_url_netloc:
  "urlparse chk url = Inr r \<Longrightarrow> validate_url chk url = py_in ''zillow.com'' (lower (netloc r))"
  by (simp add: validate_url_def)

lemma try_body_fetch_raises:
  "session_get e url = Inl ex \<Longrightarrow> try_body e url r = (Some ex, r, [NetworkGet url])"
  by (simp add: try_body_def)

lemma try_body_status:
  "session_get e url = Inr resp \<Longrightarrow> 400 \<le> status_code resp \<Longrightarrow> status_code resp < 600 \<Longrightarrow>
   \<exists>m. try_body e url r = (Some (HTTPError (status_code resp) m), r, [NetworkGet url])"
  by (simp add: try_body_def raise_for_status_def)

text \<open>
  Claim C7. For a URL that passes \<open>validate_url\<close>: when the request times out the record
  is the failure record with error \<open>Request timeout\<close>; when the response has a status from
  400 to 599 it is the failure record with error \<open>HTTP\<close> and the status; when the request
  raises another \<open>RequestException\<close> it is the failure record with error \<open>Request failed:\<close>
  and the message. In a failure record the five data fields are \<open>N/A\<close>. In the three cases
  the only event is the network request: the page is not parsed and no extractor runs.
\<close>

theorem fetch_failure_record:
  assumes "validate_url (checks e) url"
  shows "(session_get e url = Inl (Timeout m) \<longrightarrow>
            extract_property_data e url = (failure_record e url ''Request timeout'', [NetworkGet url]))
       \<and> (session_get e url = Inr resp \<and> 400 \<le> status_code resp \<and> status_code resp < 600 \<longrightarrow>
            extract_property_data e url =
              (failure_record e url (''HTTP '' @ str_nat (status_code resp)), [NetworkGet url]))
       \<and> (session_get e url = Inl (RequestException m) \<longrightarrow>
            extract_property_data e url =
              (failure_record e url (''Request failed: '' @ m), [NetworkGet url]))"
proof (intro conjI impI)
  assume "session_get e url = Inl (Timeout m)"
  with assms show "extract_property_data e url = (failure_record e url ''Request timeout'', [NetworkGet url])"
    by (simp add: extract_property_data_def Let_def try_body_fetch_raises initial_error)
next
  assume "session_get e url = Inl (RequestException m)"
  with assms show "extract_property_data e url = (failure_record e url (''Request failed: '' @ m), [NetworkGet url])"
    by (simp add: extract_property_data_def Let_def try_body_fetch_raises initial_error)
next
  assume a: "session_get e url = Inr resp \<and> 400 \<le> status_code resp \<and> status_code resp < 600"
  then obtain msg where "try_body e url (initial_result e url)
      = (Some (HTTPError (status_code resp) msg), initial_result e url, [NetworkGet url])"
    using try_body_status by blast
  with assms show "extract_property_data e url =
              (failure_record e url (''HTTP '' @ str_nat (status_code resp)), [NetworkGet url])"
    by (simp add: extract_property_data_def Let_def initial_error)
qed

lemma zillow_url_valid: "validate_url any_host zillow_url"
  by code_simp

lemma str_nat_404: "str_nat 404 = ''404''"
  by code_simp

theorem fetch_failure_record_witness:
  "validate_url any_host zillow_url
   \<and> extract_property_data (world_at ''2024-05-01 12:00:00'' (\<lambda>u. Inl (Timeout ''read timed out''))) zillow_url
       = ([(''url'', Some zillow_url), (''address'', Some ''N/A''), (''lot_size'', Some ''N/A''),
           (''price'', Some ''N/A''), (''price_per_sqft'', Some ''N/A''),
           (''days_on_market'', Some ''N/A''), (''scrape_timestamp'', Some ''2024-05-01 12:00:00''),
           (''error'', Some ''Request timeout'')], [NetworkGet zillow_url])
   \<and> extract_property_data (world_at ''2024-05-01 12:00:00'' (\<lambda>u. Inr not_found_response)) zillow_url
       = ([(''url'', Some zillow_url), (''address'', Some ''N/A''), (''lot_size'', Some ''N/A''),
           (''price'', Some ''N/A''), (''price_per_sqft'', Some ''N/A''),
           (''days_on_market'', Some ''N/A''), (''scrape_timestamp'', Some ''2024-05-01 12:00:00''),
           (''error'', Some ''HTTP 404'')], [NetworkGet zillow_url])
   \<and> extract_property_data (world_at ''2024-05-01 12:00:00'' (\<lambda>u. Inl (RequestException ''connection refused''))) zillow_url
       = ([(''url'', Some zillow_url), (''address'', Some ''N/A''), (''lot_size'', Some ''N/A''),
           (''price'', Some ''N/A''), (''price_per_sqft'', Some ''N/A''),
           (''days_on_market'', Some ''N/A''), (''scrape_timestamp'', Some ''2024-05-01 12:00:00''),
           (''error'', Some ''Request failed: connection refused'')], [NetworkGet zillow_url])"
proof -
  have v: "validate_url (checks (world_at t g)) zillow_url" for t g
    by (simp add: world_at_def zillow_url_valid)
  show ?thesis
    using zillow_url_valid
      fetch_failure_record [OF v, where m = "''read timed out''" and resp = not_found_response,
        of "''2024-05-01 12:00:00''" "\<lambda>u. Inl (Timeout ''read timed out'')"]
      fetch_failure_record [OF v, where m = "''x''" and resp = not_found_response,
        of "''2024-05-01 12:00:00''" "\<lambda>u. Inr not_found_response"]
      fetch_failure_record [OF v, where m = "''connection refused''" and resp = not_found_response,
        of "''2024-05-01 12:00:00''" "\<lambda>u. Inl (RequestException ''connection refused'')"]
    by (simp add: world_at_def failure_record_def not_found_response_def str_nat_404)
qed

section \<open>The schema of records and rows\<close>










section \<open>URL validation\<close>

lemma field_update: "field (AList.update k v al) k' = (if k' = k then v else field al k')"
  by (simp add: field_def update_conv')

lemma error_tag_not_invalid: "error_tag ex \<noteq> ''Invalid Zillow URL''"
  by (cases ex) simp_all

lemma try_body_events:
  "try_body e url r = (ex, r', ev) \<Longrightarrow> take 1 ev = [NetworkGet url] \<and> field r' ''error'' = field r ''error''"
  by (auto simp: try_body_def extract_fields_def field_update split: sum.splits)

lemma valid_url_fetched:
  assumes "validate_url (checks e) url"
  shows "take 1 (snd (extract_property_data e url)) = [NetworkGet url]
       \<and> field (fst (extract_property_data e url)) ''error'' \<noteq> Some ''Invalid Zillow URL''"
proof -
  obtain ex r' ev where t: "try_body e url (initial_result e url) = (ex, r', ev)"
    by (cases "try_body e url (initial_result e url)") auto
  from try_body_events [OF t] have ev: "take 1 ev = [NetworkGet url]" and er: "field r' ''error'' = None"
    by (simp_all add: initial_result_def field_def)
  show ?thesis
    using assms t ev er
    by (cases ex) (simp_all add: extract_property_data_def Let_def field_update error_tag_not_invalid)
qed

text \<open>
  Claim C1, evaluated. For the URL \<open>https://www.notzillow.com/x\<close> the netloc is
  \<open>www.notzillow.com\<close>, which contains \<open>zillow.com\<close>: \<open>validate_url\<close> accepts the URL, the
  first thing \<open>extract_property_data\<close> does is the network request, and the error of the
  record is not \<open>Invalid Zillow URL\<close>, in every world.
\<close>

theorem notzillow_url_is_fetched:
  "validate_url (checks e) ''https://www.notzillow.com/x''
   \<and> take 1 (snd (extract_property_data e ''https://www.notzillow.com/x''))
       = [NetworkGet ''https://www.notzillow.com/x'']
   \<and> field (fst (extract_property_data e ''https://www.notzillow.com/x'')) ''error''
       \<noteq> Some ''Invalid Zillow URL''"
proof -
  have v: "validate_url (checks e) ''https://www.notzillow.com/x''"
    by code_simp
  with valid_url_fetched [OF v] show ?thesis by simp
qed

text \<open>
  Claim C2, evaluated. For the URL \<open>https://zillow.com@evil.example/x\<close> the netloc is
  \<open>zillow.com@evil.example\<close> and the host is \<open>evil.example\<close>, which does not contain
  \<open>zillow.com\<close>; \<open>validate_url\<close> tests the netloc, accepts the URL, and the network request
  is made. The lemmas \<open>validate_url_netloc\<close>, \<open>validate_url_parse_error\<close> and
  \<open>invalid_url_record\<close> above state what holds of the netloc: a URL whose netloc lacks
  \<open>zillow.com\<close> and a URL \<open>urlparse\<close> rejects are refused, and a refused URL causes no event.
\<close>

theorem userinfo_url_is_fetched:
  "urlparse (checks e) ''https://zillow.com@evil.example/x''
     = Inr \<lparr>scheme = ''https'', netloc = ''zillow.com@evil.example'', rest = ''/x''\<rparr>
   \<and> hostname \<lparr>scheme = ''https'', netloc = ''zillow.com@evil.example'', rest = ''/x''\<rparr> = ''evil.example''
   \<and> \<not> py_in ''zillow.com'' (lower ''evil.example'')
   \<and> validate_url (checks e) ''https://zillow.com@evil.example/x''
   \<and> take 1 (snd (extract_property_data e ''https://zillow.com@evil.example/x''))
       = [NetworkGet ''https://zillow.com@evil.example/x'']"
proof -
  have p: "urlparse (checks e) ''https://zillow.com@evil.example/x''
     = Inr \<lparr>scheme = ''https'', netloc = ''zillow.com@evil.example'', rest = ''/x''\<rparr>"
    by code_simp
  have h: "hostname \<lparr>scheme = ''https'', netloc = ''zillow.com@evil.example'', rest = ''/x''\<rparr> = ''evil.example''"
    by code_simp
  have n: "\<not> py_in ''zillow.com'' (lower ''evil.example'')"
    by code_simp
  have v: "validate_url (checks e) ''https://zillow.com@evil.example/x''"
    by code_simp
  from p h n v valid_url_fetched [OF v] show ?thesis by simp
qed

section \<open>Two runs on the same page\<close>

lemma try_body_clock: "try_body (e\<lparr>now := t\<rparr>) url r = try_body e url r"
  by (simp add: try_body_def cong: sum.case_cong)

lemma try_body_fields:
  "try_body e url r1 = (ex1, r1', ev1) \<Longrightarrow> try_body e url r2 = (ex2, r2', ev2) \<Longrightarrow>
   field r1 k = field r2 k \<Longrightarrow> ex1 = ex2 \<and> ev1 = ev2 \<and> field r1' k = field r2' k"
  by (auto simp: try_body_def extract_fields_def field_update split: sum.splits)

text \<open>
  Claim C9. Two runs of \<open>extract_property_data\<close> on the same URL in worlds that differ
  only in the clock (the same network answer, the same parsed page) return records that
  agree on \<open>url\<close>, \<open>address\<close>, \<open>lot_size\<close>, \<open>price\<close>, \<open>price_per_sqft\<close>, \<open>days_on_market\<close> and
  \<open>error\<close>, and cause the same events: only \<open>scrape_timestamp\<close> can differ. The extractors
  are functions of the document alone.
\<close>

theorem clock_only_in_timestamp:
  "map (field (fst (extract_property_data (e\<lparr>now := t\<rparr>) url)))
       [''url'', ''address'', ''lot_size'', ''price'', ''price_per_sqft'', ''days_on_market'', ''error'']
   = map (field (fst (extract_property_data e url)))
       [''url'', ''address'', ''lot_size'', ''price'', ''price_per_sqft'', ''days_on_market'', ''error'']
   \<and> snd (extract_property_data (e\<lparr>now := t\<rparr>) url) = snd (extract_property_data e url)"
proof (cases "validate_url (checks e) url")
  case False
  then show ?thesis
    by (simp add: invalid_url_record failure_record_def field_def)
next
  case True
  obtain ex1 r1 ev1 where t1: "try_body e url (initial_result (e\<lparr>now := t\<rparr>) url) = (ex1, r1, ev1)"
    by (cases "try_body e url (initial_result (e\<lparr>now := t\<rparr>) url)") auto
  obtain ex2 r2 ev2 where t2: "try_body e url (initial_result e url) = (ex2, r2, ev2)"
    by (cases "try_body e url (initial_result e url)") auto
  have same: "k \<noteq> ''scrape_timestamp'' \<Longrightarrow>
      field (initial_result (e\<lparr>now := t\<rparr>) url) k = field (initial_result e url) k" for k
    by (simp add: initial_result_def field_def)
  have f: "k \<noteq> ''scrape_timestamp'' \<Longrightarrow> ex1 = ex2 \<and> ev1 = ev2 \<and> field r1 k = field r2 k" for k
    using try_body_fields [OF t1 t2] same by blast
  have e: "ex1 = ex2" "ev1 = ev2" using f [of "''url''"] by simp_all
  show ?thesis
    using True t1 t2 e f
    by (cases ex2) (simp_all add: extract_property_data_def Let_def try_body_clock field_update)
qed

theorem clock_only_in_timestamp_witness:
  "map (field (fst (extract_property_data (world_at ''2024-05-01 12:00:00'' (\<lambda>u. Inr ok_response)) zillow_url)))
       [''url'', ''address'', ''lot_size'', ''price'', ''price_per_sqft'', ''days_on_market'', ''error'']
   = [Some zillow_url, Some ''123 Main St, Springfield'', Some ''N/A'', Some ''$350,000'',
      Some ''N/A'', Some ''N/A'', None]
   \<and> map (field (fst (extract_property_data (world_at ''2024-05-01 12:00:07'' (\<lambda>u. Inr ok_response)) zillow_url)))
       [''url'', ''address'', ''lot_size'', ''price'', ''price_per_sqft'', ''days_on_market'', ''error'']
   = [Some zillow_url, Some ''123 Main St, Springfield'', Some ''N/A'', Some ''$350,000'',
      Some ''N/A'', Some ''N/A'', None]"
proof -
  have a: "map (field (fst (extract_property_data (world_at ''2024-05-01 12:00:00'' (\<lambda>u. Inr ok_response)) zillow_url)))
       [''url'', ''address'', ''lot_size'', ''price'', ''price_per_sqft'', ''days_on_market'', ''error'']
   = [Some zillow_url, Some ''123 Main St, Springfield'', Some ''N/A'', Some ''$350,000'',
      Some ''N/A'', Some ''N/A'', None]"
    by code_simp
  have w: "(world_at ''2024-05-01 12:00:00'' (\<lambda>u. Inr ok_response))\<lparr>now := ''2024-05-01 12:00:07''\<rparr>
      = world_at ''2024-05-01 12:00:07'' (\<lambda>u. Inr ok_response)"
    by (simp add: world_at_def)
  from clock_only_in_timestamp [where e = "world_at ''2024-05-01 12:00:00'' (\<lambda>u. Inr ok_response)"
      and t = "''2024-05-01 12:00:07''" and url = zillow_url] a w
  show ?thesis by simp
qed

section \<open>The sentinel and the exceptions of the extractors\<close>












section \<open>Loops that return the first value\<close>





section \<open>Paths of the tree\<close>

lemma forest_node_at:
  assumes "\<And>c p x. c \<in> set cs \<Longrightarrow> (p, x) \<in> set (subtree c) \<Longrightarrow> node_at c p = Some x"
    and "(p, x) \<in> set (forest i cs)"
  shows "\<exists>j q. p = (i + j) # q \<and> j < length cs \<and> node_at (cs ! j) q = Some x"
  using assms
proof (induction cs arbitrary: i)
  case Nil
  then show ?case by simp
next
  case (Cons c cs)
  from Cons.prems(2) consider
    (here) q where "p = i # q" "(q, x) \<in> set (subtree c)"
    | (later) "(p, x) \<in> set (forest (Suc i) cs)"
    by auto
  then show ?case
  proof cases
    case here
    then have "node_at c q = Some x" using Cons.prems(1) by simp
    with here show ?thesis by (intro exI [of _ 0] exI [of _ q]) simp
  next
    case later
    then obtain j q where "p = (Suc i + j) # q" "j < length cs" "node_at (cs ! j) q = Some x"
      using Cons.IH [of "Suc i"] Cons.prems(1) by auto
    then show ?thesis by (intro exI [of _ "Suc j"] exI [of _ q]) simp
  qed
qed

lemma subtree_node_at: "(p, x) \<in> set (subtree n) \<Longrightarrow> node_at n p = Some x"
proof (induction n arbitrary: p x)
  case (Tag nm as cs)
  from Tag.prems consider (root) "p = []" "x = Tag nm as cs" | (below) "(p, x) \<in> set (forest 0 cs)"
    by auto
  then show ?case
  proof cases
    case root
    then show ?thesis by simp
  next
    case below
    then obtain j q where "p = (0 + j) # q" "j < length cs" "node_at (cs ! j) q = Some x"
      using forest_node_at [of cs p x 0] Tag.IH by blast
    then show ?thesis by simp
  qed
next
  case (Text k s)
  then show ?case by simp
qed





lemma next_elements_node_at: "(p, x) \<in> set (next_elements n q) \<Longrightarrow> node_at n p = Some x"
proof -
  assume "(p, x) \<in> set (next_elements n q)"
  then have "(p, x) \<in> set (dropWhile (\<lambda>(q', x). q' \<noteq> q) (subtree n))"
    unfolding next_elements_def by (metis list.sel(2) list.set_sel(2))
  then have "(p, x) \<in> set (subtree n)" by (rule set_dropWhileD)
  then show ?thesis by (rule subtree_node_at)
qed

section \<open>\<open>find\<close> and \<open>find_all\<close> on the tree\<close>








section \<open>The price strategies on the tree\<close>

lemma py_in_nil [simp]: "py_in (c # cs) [] = False"
  by simp





section \<open>Days on market on the tree\<close>



lemma lower_nil [simp]: "lower s = [] \<longleftrightarrow> s = []"
  by (simp add: lower_def)









section \<open>Lot size on the tree\<close>






end
